theory Spec2Isabelle
  imports Complex_Main "HOL-Library.Multiset"
begin

section \<open>Python values\<close>

subsection \<open>Floating-point numbers\<close>

text \<open>
  A Python \<open>float\<close> is a finite number, an infinity or NaN. Finite numbers are modelled
  as reals: rounding and overflow are outside the model. Every comparison with NaN is
  false, so \<open><\<close> and \<open>>\<close> are not a total order on floats.
\<close>

datatype pyfloat = Finite real | PosInf | NegInf | NaN

fun float_less :: "pyfloat \<Rightarrow> pyfloat \<Rightarrow> bool" where
  "float_less NaN y = False"
| "float_less x NaN = False"
| "float_less (Finite x) (Finite y) = (x < y)"
| "float_less x PosInf = (x \<noteq> PosInf)"
| "float_less NegInf y = (y \<noteq> NegInf)"
| "float_less x y = False"

definition float_greater :: "pyfloat \<Rightarrow> pyfloat \<Rightarrow> bool" where
  "float_greater x y = float_less y x"


text \<open>Addition, and division by the length of a non-empty list.\<close>

fun float_add :: "pyfloat \<Rightarrow> pyfloat \<Rightarrow> pyfloat" where
  "float_add NaN y = NaN"
| "float_add x NaN = NaN"
| "float_add (Finite x) (Finite y) = Finite (x + y)"
| "float_add PosInf NegInf = NaN"
| "float_add NegInf PosInf = NaN"
| "float_add PosInf y = PosInf"
| "float_add NegInf y = NegInf"
| "float_add x PosInf = PosInf"
| "float_add x NegInf = NegInf"

fun float_div_len :: "pyfloat \<Rightarrow> nat \<Rightarrow> pyfloat" where
  "float_div_len (Finite x) n = Finite (x / real n)"
| "float_div_len x n = x"

text \<open>\<open>sum(xs)\<close> of floats: the additions start from 0.\<close>

definition float_sum :: "pyfloat list \<Rightarrow> pyfloat" where
  "float_sum xs = foldl float_add (Finite 0) xs"

subsection \<open>Values\<close>

text \<open>
  The four entity classes of \<open>data_structures.py\<close> are dataclasses.
\<close>

datatype dataclass = Configuration | Metrics | Artifacts | ExperimentRecord

text \<open>
  Python values of type \<open>Any\<close>, as they occur in configuration mappings and in the
  planner's summary: an \<open>int\<close> is an integer, a \<open>dict\<close> with string keys an
  association list in insertion order, an instance of a dataclass its class with its
  fields in the order of declaration, and an object of any other class is known by its
  identity only.
\<close>

datatype pyval =
    PNone
  | PBool bool
  | PInt int
  | PFloat pyfloat
  | PStr string
  | PList "pyval list"
  | PDict "(string \<times> pyval) list"
  | PInstance dataclass "(string \<times> pyval) list"
  | PObject nat

type_synonym pydict = "(string \<times> pyval) list"

text \<open>The exceptions the modelled code can raise.\<close>

datatype error =
    KeyError string
  | IndexError
  | TypeError
  | ValueError
  | AttributeError
  | ExecutorFailure string

subsection \<open>Dictionary operations\<close>

text \<open>\<open>d.get(k, default)\<close>, \<open>d[k]\<close> (raising \<open>KeyError\<close>) and \<open>d[k] = v\<close>.\<close>

definition dict_get :: "('k \<times> 'v) list \<Rightarrow> 'k \<Rightarrow> 'v \<Rightarrow> 'v" where
  "dict_get d k dflt = (case map_of d k of None \<Rightarrow> dflt | Some v \<Rightarrow> v)"

definition dict_item :: "(string \<times> 'v) list \<Rightarrow> string \<Rightarrow> error + 'v" where
  "dict_item d k = (case map_of d k of None \<Rightarrow> Inl (KeyError k) | Some v \<Rightarrow> Inr v)"

definition dict_set :: "'k \<Rightarrow> 'v \<Rightarrow> ('k \<times> 'v) list \<Rightarrow> ('k \<times> 'v) list" where
  "dict_set k v d =
     (if k \<in> fst ` set d then map (\<lambda>(k', v'). if k' = k then (k', v) else (k', v')) d
      else d @ [(k, v)])"

text \<open>\<open>d[k].append(x)\<close> on a \<open>defaultdict(list)\<close>, \<open>d[k] += 1\<close> on a \<open>defaultdict(int)\<close>.\<close>

definition dict_append :: "'k \<Rightarrow> 'v \<Rightarrow> ('k \<times> 'v list) list \<Rightarrow> ('k \<times> 'v list) list" where
  "dict_append k x d = dict_set k (dict_get d k [] @ [x]) d"

definition dict_incr :: "'k \<Rightarrow> ('k \<times> int) list \<Rightarrow> ('k \<times> int) list" where
  "dict_incr k d = dict_set k (dict_get d k 0 + 1) d"

section \<open>Data model (data\_structures.py)\<close>

record configuration =
  forward_config :: pydict
  recon_family :: string
  recon_params :: pydict
  uq_scheme :: string
  uq_params :: pydict
  train_config :: pydict

record metrics =
  psnr :: pyfloat
  coverage :: pyfloat
  latency :: pyfloat
  calibration_error :: "pyfloat option"
  other_metrics :: "(string \<times> pyfloat) list"

text \<open>
  The \<open>uq_params\<close> field of \<open>Artifacts\<close> is named \<open>fitted_uq_params\<close> here, since the
  configuration already has a field of that name; the \<open>id\<close> field of
  \<open>ExperimentRecord\<close> is \<open>exp_id\<close>.
\<close>

record artifacts =
  checkpoint :: string
  fitted_uq_params :: pydict
  train_log :: string
  eval_samples :: "string list"
  fig_scripts :: "string list"

record experiment_record =
  exp_id :: string
  config :: configuration
  metrics :: metrics
  artifacts :: artifacts
  timestamp :: string

text \<open>
  \<open>ExperimentRecord.__post_init__\<close>: an empty id is replaced by a fresh UUID string,
  here the argument \<open>fresh\<close>.
\<close>

definition post_init :: "string \<Rightarrow> experiment_record \<Rightarrow> experiment_record" where
  "post_init fresh r = (if exp_id r = [] then r\<lparr>exp_id := fresh\<rparr> else r)"

text \<open>
  \<open>WorldModel\<close>: the record list and the indices, a \<open>defaultdict(list)\<close> whose
  buckets hold (attribute value, record id) pairs.
\<close>

record world_model =
  experiments :: "experiment_record list"
  indices :: "(string \<times> (string \<times> string) list) list"

definition empty_world_model :: world_model where
  "empty_world_model = \<lparr>experiments = [], indices = []\<rparr>"

definition get_all_experiments :: "world_model \<Rightarrow> experiment_record list" where
  "get_all_experiments wm = experiments wm"

section \<open>Analysis agent (analysis.py)\<close>

subsection \<open>Attribute access and comparison\<close>

text \<open>
  What \<open>getattr(metrics, name, 0)\<close> can find on a \<open>Metrics\<close> object: a number, \<open>None\<close>
  (an unset \<open>calibration_error\<close>), the \<open>other_metrics\<close> mapping, or an attribute that
  Python's object model gives the object (\<open>__class__\<close>, \<open>__dict__\<close>, \<open>__hash__\<close>,
  \<open>__eq__\<close>, \<open>__doc__\<close>, ...). Of the latter the model keeps what a comparison sees:
  \<open>Unordered\<close> is a value that does not support \<open><\<close> (a class, a method, a mapping,
  \<open>None\<close>), and \<open>Shared\<close> is a value that supports it and is the same on every
  \<open>Metrics\<close> object (the string \<open>__doc__\<close>, the tuple \<open>__match_args__\<close>).
\<close>

datatype attr_value =
    is_Number: Number pyfloat
  | NoneValue
  | DictValue "(string \<times> pyfloat) list"
  | Shared
  | Unordered

text \<open>
  Which attributes the object model provides depends on the Python version; the table
  of them is a parameter. The five dataclass fields come first, as instance attributes.
\<close>

type_synonym attribute_table = "string \<Rightarrow> attr_value option"

definition metrics_attr :: "attribute_table \<Rightarrow> metrics \<Rightarrow> string \<Rightarrow> attr_value option" where
  "metrics_attr T m name =
     (if name = ''psnr'' then Some (Number (psnr m))
      else if name = ''coverage'' then Some (Number (coverage m))
      else if name = ''latency'' then Some (Number (latency m))
      else if name = ''calibration_error'' then
        Some (case calibration_error m of None \<Rightarrow> NoneValue | Some e \<Rightarrow> Number e)
      else if name = ''other_metrics'' then Some (DictValue (other_metrics m))
      else T name)"

definition getattr0 :: "attribute_table \<Rightarrow> metrics \<Rightarrow> string \<Rightarrow> attr_value" where
  "getattr0 T m name = (case metrics_attr T m name of Some v \<Rightarrow> v | None \<Rightarrow> Number (Finite 0))"

text \<open>
  \<open>x < y\<close> and \<open>x > y\<close> on these values: numbers compare as floats, a shared value is
  not less than itself, and Python raises \<open>TypeError\<close> in every other case.
\<close>

fun py_less :: "attr_value \<Rightarrow> attr_value \<Rightarrow> error + bool" where
  "py_less (Number x) (Number y) = Inr (float_less x y)"
| "py_less Shared Shared = Inr False"
| "py_less _ _ = Inl TypeError"

fun py_greater :: "attr_value \<Rightarrow> attr_value \<Rightarrow> error + bool" where
  "py_greater (Number x) (Number y) = Inr (float_greater x y)"
| "py_greater Shared Shared = Inr False"
| "py_greater _ _ = Inl TypeError"

subsection \<open>compute\_pareto\_front\<close>

text \<open>
  The loop over the objectives for one pair of records. The flag
  \<open>strictly_better_in_one\<close> is threaded through; the result is
  \<open>(dominates, strictly_better_in_one)\<close> at the end of the loop or at its \<open>break\<close>.
\<close>

fun objectives_loop ::
  "attribute_table \<Rightarrow> metrics \<Rightarrow> metrics \<Rightarrow> string list \<Rightarrow> bool \<Rightarrow> error + bool \<times> bool"
where
  "objectives_loop T metrics1 metrics2 [] strictly = Inr (True, strictly)"
| "objectives_loop T metrics1 metrics2 (obj # objs) strictly =
     (let val1 = getattr0 T metrics1 obj; val2 = getattr0 T metrics2 obj in
      case py_less val2 val1 of
        Inl e \<Rightarrow> Inl e
      | Inr True \<Rightarrow> Inr (False, strictly)
      | Inr False \<Rightarrow>
          (case py_greater val2 val1 of
             Inl e \<Rightarrow> Inl e
           | Inr gt \<Rightarrow> objectives_loop T metrics1 metrics2 objs (if gt then True else strictly)))"

text \<open>The loop over \<open>exp2\<close>: is \<open>exp1\<close> dominated by a record with another id?\<close>

fun exp2_loop ::
  "attribute_table \<Rightarrow> experiment_record \<Rightarrow> string list \<Rightarrow> experiment_record list \<Rightarrow> error + bool"
where
  "exp2_loop T exp1 objectives [] = Inr False"
| "exp2_loop T exp1 objectives (exp2 # rest) =
     (if exp_id exp1 = exp_id exp2 then exp2_loop T exp1 objectives rest
      else case objectives_loop T (metrics exp1) (metrics exp2) objectives False of
        Inl e \<Rightarrow> Inl e
      | Inr (dominates, strictly) \<Rightarrow>
          if dominates \<and> strictly then Inr True else exp2_loop T exp1 objectives rest)"

text \<open>The loop over \<open>exp1\<close>, adding the ids of the records that are not dominated.\<close>

fun exp1_loop ::
  "attribute_table \<Rightarrow> experiment_record list \<Rightarrow> string list \<Rightarrow> experiment_record list \<Rightarrow>
     string set \<Rightarrow> error + string set"
where
  "exp1_loop T all objectives [] pareto_set = Inr pareto_set"
| "exp1_loop T all objectives (exp1 # rest) pareto_set =
     (case exp2_loop T exp1 objectives all of
        Inl e \<Rightarrow> Inl e
      | Inr is_dominated \<Rightarrow>
          exp1_loop T all objectives rest
            (if is_dominated then pareto_set else insert (exp_id exp1) pareto_set))"

definition compute_pareto_front ::
  "attribute_table \<Rightarrow> experiment_record list \<Rightarrow> string list \<Rightarrow> error + string set" where
  "compute_pareto_front T exps objectives =
     (if exps = [] then Inr {} else exp1_loop T exps objectives exps {})"

subsection \<open>Built-ins\<close>

text \<open>
  Python's number formatting, \<open>repr\<close> of a string and the attribute table of the object
  model are built-ins of the language, not code of the repository; the model takes them
  as parameters.
\<close>

record formatting =
  fmt_int :: "nat \<Rightarrow> string"
  fmt_2f :: "pyfloat \<Rightarrow> string"
  fmt_3f :: "pyfloat \<Rightarrow> string"
  repr_str :: "string \<Rightarrow> string"
  object_attributes :: attribute_table

text \<open>\<open>str\<close> of a pair of strings, as the f-string \<open>{stratum_key}\<close> prints it.\<close>

definition str_tuple :: "formatting \<Rightarrow> string \<times> string \<Rightarrow> string" where
  "str_tuple F key = ''('' @ repr_str F (fst key) @ '', '' @ repr_str F (snd key) @ '')''"

subsection \<open>compute\_calibration\_stats\<close>

text \<open>
  \<open>max(xs)\<close> and \<open>min(xs)\<close> on a non-empty list keep the first element until a later
  one is greater, or less.
\<close>

definition float_max :: "pyfloat \<Rightarrow> pyfloat list \<Rightarrow> pyfloat" where
  "float_max x xs = foldl (\<lambda>best y. if float_greater y best then y else best) x xs"

definition float_min :: "pyfloat \<Rightarrow> pyfloat list \<Rightarrow> pyfloat" where
  "float_min x xs = foldl (\<lambda>best y. if float_less y best then y else best) x xs"

definition compute_calibration_stats :: "experiment_record list \<Rightarrow> (string \<times> pyfloat) list" where
  "compute_calibration_stats exps =
     (let calib_errors = List.map_filter (\<lambda>e. calibration_error (metrics e)) exps in
      case calib_errors of
        [] \<Rightarrow> [(''mean_error'', Finite 0), (''max_error'', Finite 0)]
      | x # xs \<Rightarrow>
          [(''mean_error'', float_div_len (float_sum calib_errors) (length calib_errors)),
           (''max_error'', float_max x xs),
           (''min_error'', float_min x xs)])"

subsection \<open>summarize\_trends\<close>

text \<open>\<open>max(xs, key=...)\<close> on a non-empty list: the first element with the largest key.\<close>

fun max_by :: "('a \<Rightarrow> pyfloat) \<Rightarrow> 'a \<Rightarrow> 'a list \<Rightarrow> 'a" where
  "max_by key best [] = best"
| "max_by key best (x # xs) = max_by key (if float_greater (key x) (key best) then x else best) xs"

definition summarize_trends ::
  "formatting \<Rightarrow> experiment_record list \<Rightarrow> string set \<Rightarrow> (string \<times> pyfloat) list \<Rightarrow> error + string"
where
  "summarize_trends F exps pareto_ids calib_stats =
     (let pareto_exps = filter (\<lambda>e. exp_id e \<in> pareto_ids) exps in
      case pareto_exps of
        [] \<Rightarrow> Inr ''No significant trends found.''
      | e # es \<Rightarrow>
          (let avg_psnr = float_div_len (float_sum (map (\<lambda>e. psnr (metrics e)) pareto_exps))
                            (length pareto_exps);
               best_config = max_by (\<lambda>e. psnr (metrics e)) e es;
               summary = ''Pareto frontier contains '' @ fmt_int F (length pareto_exps) @ '' configurations. ''
                 @ ''Average PSNR: '' @ fmt_2f F avg_psnr @ '' dB. ''
                 @ ''Best config uses '' @ recon_family (config best_config) @ '', ''
                 @ ''PSNR='' @ fmt_2f F (psnr (metrics best_config)) @ '' dB. ''
           in case dict_item calib_stats ''mean_error'' of
                Inl err \<Rightarrow> Inl err
              | Inr mean_error \<Rightarrow>
                  Inr (if float_greater mean_error (Finite 0)
                       then summary @ ''Average calibration error: '' @ fmt_3f F mean_error @ ''.''
                       else summary)))"

subsection \<open>analysis\_step\<close>

type_synonym strata = "((string \<times> string) \<times> experiment_record list) list"

definition stratum_key :: "experiment_record \<Rightarrow> string \<times> string" where
  "stratum_key e = (recon_family (config e), uq_scheme (config e))"

definition group_strata :: "experiment_record list \<Rightarrow> strata" where
  "group_strata all_experiments =
     foldl (\<lambda>strata e. dict_append (stratum_key e) e strata) [] all_experiments"

text \<open>The loop over \<open>strata.items()\<close>, with the two accumulators of the source.\<close>

fun strata_loop ::
  "formatting \<Rightarrow> strata \<Rightarrow> string set \<Rightarrow> string list \<Rightarrow> error + string set \<times> string list"
where
  "strata_loop F [] pareto_set_all trends_all = Inr (pareto_set_all, trends_all)"
| "strata_loop F ((key, exps_in_stratum) # rest) pareto_set_all trends_all =
     (case compute_pareto_front (object_attributes F) exps_in_stratum [''psnr'', ''coverage''] of
        Inl err \<Rightarrow> Inl err
      | Inr pareto_ids \<Rightarrow>
          (let calib_stats = compute_calibration_stats exps_in_stratum in
           case summarize_trends F exps_in_stratum pareto_ids calib_stats of
             Inl err \<Rightarrow> Inl err
           | Inr trend_summary \<Rightarrow>
               strata_loop F rest (pareto_set_all \<union> pareto_ids)
                 (trends_all @ [''['' @ str_tuple F key @ ''] '' @ trend_summary])))"

definition analysis_step :: "formatting \<Rightarrow> world_model \<Rightarrow> error + string set \<times> string list" where
  "analysis_step F wm = strata_loop F (group_strata (get_all_experiments wm)) {} []"

section \<open>World model manager (world\_model.py)\<close>

text \<open>
  \<open>WorldModelManager.update\<close>. The argument \<open>uuids\<close> holds the two strings that
  \<open>uuid.uuid4()\<close> would supply: the id passed to the constructor and the one
  \<open>__post_init__\<close> draws if that id is empty.
\<close>

definition update ::
  "string \<times> string \<Rightarrow> world_model \<Rightarrow> configuration \<Rightarrow> metrics \<Rightarrow> artifacts \<Rightarrow> world_model"
where
  "update uuids wm c m a =
     (let experiment = post_init (snd uuids)
            \<lparr>exp_id = fst uuids, config = c, metrics = m, artifacts = a, timestamp = []\<rparr>;
          exps = experiments wm @ [experiment];
          ix1 = dict_append ''recon_family'' (recon_family c, exp_id experiment) (indices wm);
          ix2 = dict_append ''uq_scheme'' (uq_scheme c, exp_id experiment) ix1
      in \<lparr>experiments = exps, indices = ix2\<rparr>)"

section \<open>Executor (executor.py)\<close>

text \<open>
  The simulated \<open>run_campaign\<close>. Its random draws, which are finite numbers, and the
  hexadecimal pieces of its file names are the argument \<open>draws\<close>.
\<close>

record draws =
  draw_psnr :: real
  draw_coverage :: real
  draw_latency :: real
  draw_calibration :: real
  hex_checkpoint :: string
  hex_log :: string

definition run_campaign :: "draws \<Rightarrow> configuration \<Rightarrow> metrics \<times> artifacts" where
  "run_campaign D c =
     (let uq_params_fitted =
            (if uq_scheme c = ''Conformal''
             then [(''threshold'', PFloat (Finite 0.9)), (''alpha'', PFloat (Finite 0.1))]
             else if uq_scheme c = ''Ensemble''
             then [(''n_models'', PInt 5), (''variance'', PFloat (Finite 0.05))]
             else []);
          base_psnr = (if recon_family c = ''CIAS-Core-ELP'' then 28 else 26);
          m = \<lparr>psnr = Finite (base_psnr + draw_psnr D),
               coverage = Finite (draw_coverage D),
               latency = Finite (draw_latency D),
               calibration_error =
                 (if uq_scheme c \<noteq> ''None'' then Some (Finite (draw_calibration D)) else None),
               other_metrics = []\<rparr>;
          a = \<lparr>checkpoint = ''checkpoint_'' @ hex_checkpoint D @ ''.pth'',
               fitted_uq_params = uq_params_fitted,
               train_log = ''train_log_'' @ hex_log D @ ''.txt'',
               eval_samples = [''sample_0.png'', ''sample_1.png'', ''sample_2.png''],
               fig_scripts = [''figure_0.py'', ''figure_1.py'']\<rparr>
      in (m, a))"


section \<open>Planner (planner.py)\<close>

subsection \<open>summarize\_world\_model\<close>

definition count_by :: "(experiment_record \<Rightarrow> string) \<Rightarrow> experiment_record list \<Rightarrow> pydict" where
  "count_by tag exps =
     map (\<lambda>(k, n). (k, PInt n)) (foldl (\<lambda>d e. dict_incr (tag e) d) [] exps)"

definition summarize_world_model :: "world_model \<Rightarrow> pydict" where
  "summarize_world_model wm =
     (case get_all_experiments wm of
        [] \<Rightarrow>
          [(''total_experiments'', PInt 0),
           (''best_psnr'', PFloat (Finite 0)),
           (''frontiers'', PList []),
           (''constraints'', PDict []),
           (''underexplored'', PList [PStr ''all''])]
      | e # es \<Rightarrow>
          (let exps = e # es;
               best_exp = max_by (\<lambda>e. psnr (metrics e)) e es;
               avg_psnr = float_div_len (float_sum (map (\<lambda>e. psnr (metrics e)) exps)) (length exps)
           in [(''total_experiments'', PInt (int (length exps))),
               (''best_psnr'', PFloat (psnr (metrics best_exp))),
               (''best_config'', PStr (recon_family (config best_exp))),
               (''avg_psnr'', PFloat avg_psnr),
               (''recon_families'', PDict (count_by (\<lambda>e. recon_family (config e)) exps)),
               (''uq_schemes'', PDict (count_by (\<lambda>e. uq_scheme (config e)) exps)),
               (''frontiers'', PList []),
               (''constraints'', PDict [(''max_latency'', PInt 100), (''min_coverage'', PFloat (Finite 0.8))])]))"

subsection \<open>identify\_underexplored\_regions\<close>

text \<open>\<open>set(summary.get(name, {}).keys())\<close>; a value without \<open>keys\<close> raises.\<close>

definition tested_keys :: "pydict \<Rightarrow> string \<Rightarrow> error + string list" where
  "tested_keys summary name =
     (case dict_get summary name (PDict []) of
        PDict d \<Rightarrow> Inr (map fst d)
      | _ \<Rightarrow> Inl AttributeError)"

definition identify_underexplored_regions :: "pydict \<Rightarrow> error + string list" where
  "identify_underexplored_regions summary =
     (let all_families = [''CIAS-Core'', ''CIAS-Core-ELP'', ''Baseline-CNN''] in
      case tested_keys summary ''recon_families'' of
        Inl err \<Rightarrow> Inl err
      | Inr tested_families \<Rightarrow>
          (let gaps1 = map (\<lambda>family. ''recon_family:'' @ family)
                         (filter (\<lambda>family. family \<notin> set tested_families) all_families);
               all_uq = [''Conformal'', ''Ensemble'', ''None'']
           in case tested_keys summary ''uq_schemes'' of
                Inl err \<Rightarrow> Inl err
              | Inr tested_uq \<Rightarrow>
                  (let gaps = gaps1 @ map (\<lambda>uq. ''uq_scheme:'' @ uq)
                                        (filter (\<lambda>uq. uq \<notin> set tested_uq) all_uq)
                   in Inr (if gaps \<noteq> [] then gaps else [''explore_variations'']))))"

subsection \<open>build\_planner\_prompt\<close>

text \<open>
  The prompt is a fixed template around five values; the model keeps the values instead
  of the text. \<open>len(frontiers)\<close> raises on a value that has no length.
\<close>

record prompt =
  prompt_gaps :: "string list"
  prompt_frontiers :: nat
  prompt_constraints :: pyval
  prompt_budget :: int
  prompt_count :: int

fun py_len :: "pyval \<Rightarrow> error + nat" where
  "py_len (PList xs) = Inr (length xs)"
| "py_len (PDict d) = Inr (length d)"
| "py_len (PStr s) = Inr (length s)"
| "py_len _ = Inl TypeError"

definition build_planner_prompt :: "string list \<Rightarrow> pyval \<Rightarrow> pyval \<Rightarrow> int \<Rightarrow> error + prompt" where
  "build_planner_prompt gaps frontiers constraints budget =
     (case py_len frontiers of
        Inl err \<Rightarrow> Inl err
      | Inr n \<Rightarrow>
          Inr \<lparr>prompt_gaps = gaps, prompt_frontiers = n, prompt_constraints = constraints,
               prompt_budget = budget, prompt_count = min 3 budget\<rparr>)"

subsection \<open>llm\_generate\_configs\<close>

text \<open>
  A raw proposal is a \<open>dict\<close>. The model keeps the six keys the planner reads; each is
  absent or holds a value of the type of the \<open>Configuration\<close> field it feeds.
\<close>

record proposal =
  p_forward_config :: "pydict option"
  p_recon_family :: "string option"
  p_recon_params :: "pydict option"
  p_uq_scheme :: "string option"
  p_uq_params :: "pydict option"
  p_train_config :: "pydict option"

text \<open>The repository's stand-in for the language model: three fixed proposals.\<close>

definition llm_generate_configs :: "prompt \<Rightarrow> proposal list" where
  "llm_generate_configs pr =
     [\<lparr>p_forward_config = Some [(''compression_ratio'', PInt 8)],
       p_recon_family = Some ''CIAS-Core-ELP'',
       p_recon_params = Some [(''num_layers'', PInt 10), (''hidden_dim'', PInt 128)],
       p_uq_scheme = Some ''Conformal'',
       p_uq_params = Some [(''alpha'', PFloat (Finite 0.1))],
       p_train_config = Some [(''epochs'', PInt 50), (''lr'', PFloat (Finite 0.001))]\<rparr>,
      \<lparr>p_forward_config = Some [(''compression_ratio'', PInt 16)],
       p_recon_family = Some ''CIAS-Core'',
       p_recon_params = Some [(''num_layers'', PInt 8), (''hidden_dim'', PInt 64)],
       p_uq_scheme = Some ''Ensemble'',
       p_uq_params = Some [(''n_models'', PInt 5)],
       p_train_config = Some [(''epochs'', PInt 40), (''lr'', PFloat (Finite 0.0005))]\<rparr>,
      \<lparr>p_forward_config = Some [(''compression_ratio'', PInt 8)],
       p_recon_family = Some ''Baseline-CNN'',
       p_recon_params = Some [(''num_layers'', PInt 6)],
       p_uq_scheme = Some ''None'',
       p_uq_params = Some [],
       p_train_config = Some [(''epochs'', PInt 30), (''lr'', PFloat (Finite 0.001))]\<rparr>]"

subsection \<open>project\_to\_design\_space\<close>

type_synonym design_space = "(string \<times> string list) list"

definition option_get :: "'a option \<Rightarrow> 'a \<Rightarrow> 'a" where
  "option_get v dflt = (case v of None \<Rightarrow> dflt | Some x \<Rightarrow> x)"

definition first_family :: "design_space \<Rightarrow> error + string" where
  "first_family ds =
     (case dict_item ds ''recon_families'' of
        Inl err \<Rightarrow> Inl err
      | Inr families \<Rightarrow> (case families of [] \<Rightarrow> Inl IndexError | f # _ \<Rightarrow> Inr f))"

definition project_to_design_space :: "proposal \<Rightarrow> design_space \<Rightarrow> error + configuration" where
  "project_to_design_space p ds =
     (let tag = option_get (p_recon_family p) ''CIAS-Core'' in
      case (if tag \<notin> set (dict_get ds ''recon_families'' []) then first_family ds else Inr tag) of
        Inl err \<Rightarrow> Inl err
      | Inr family \<Rightarrow>
          Inr \<lparr>forward_config = option_get (p_forward_config p) [],
               recon_family = family,
               recon_params = option_get (p_recon_params p) [],
               uq_scheme = option_get (p_uq_scheme p) ''None'',
               uq_params = option_get (p_uq_params p) [],
               train_config = option_get (p_train_config p) []\<rparr>)"

definition is_valid_config :: "configuration \<Rightarrow> pyval \<Rightarrow> bool" where
  "is_valid_config c constraints = True"

subsection \<open>planner\_step\<close>

text \<open>The loop that projects each raw proposal and keeps the valid ones.\<close>

fun project_loop ::
  "proposal list \<Rightarrow> design_space \<Rightarrow> pyval \<Rightarrow> configuration list \<Rightarrow> error + configuration list"
where
  "project_loop [] ds constraints new_configs = Inr new_configs"
| "project_loop (p # ps) ds constraints new_configs =
     (case project_to_design_space p ds of
        Inl err \<Rightarrow> Inl err
      | Inr c \<Rightarrow>
          project_loop ps ds constraints
            (if is_valid_config c constraints then new_configs @ [c] else new_configs))"

text \<open>The slice \<open>xs[:n]\<close>; a negative \<open>n\<close> counts from the end.\<close>

definition py_slice_to :: "int \<Rightarrow> 'a list \<Rightarrow> 'a list" where
  "py_slice_to n xs = (if 0 \<le> n then take (nat n) xs else take (length xs - nat (- n)) xs)"

text \<open>
  \<open>planner_step\<close>, with the proposal generator as the argument \<open>generate\<close>: the source
  calls \<open>llm_generate_configs\<close>, which is to be replaced by a call to a language model.
\<close>

definition planner_step ::
  "(prompt \<Rightarrow> proposal list) \<Rightarrow> pydict \<Rightarrow> design_space \<Rightarrow> int \<Rightarrow> error + configuration list"
where
  "planner_step generate summary ds budget_remaining =
     (case identify_underexplored_regions summary of
        Inl err \<Rightarrow> Inl err
      | Inr gaps \<Rightarrow>
          (let frontiers = dict_get summary ''frontiers'' (PList []);
               constraints = dict_get summary ''constraints'' (PDict [])
           in case build_planner_prompt gaps frontiers constraints budget_remaining of
                Inl err \<Rightarrow> Inl err
              | Inr pr \<Rightarrow>
                  (let proposals_raw = generate pr in
                   case project_loop proposals_raw ds constraints [] of
                     Inl err \<Rightarrow> Inl err
                   | Inr new_configs \<Rightarrow>
                       Inr (if int (length new_configs) > budget_remaining
                            then py_slice_to budget_remaining new_configs
                            else new_configs))))"

section \<open>Scientist loop (scientist\_loop.py)\<close>

text \<open>
  The collaborators of the loop: the executor (which may raise), the UUID source, the
  proposal generator and the text formatting. The executor and the UUID source are
  indexed by the number of records already in the world model, the proposal generator by
  the iteration number, so that successive calls may answer differently.
\<close>

record env =
  executor :: "nat \<Rightarrow> configuration \<Rightarrow> error + metrics \<times> artifacts"
  uuid4 :: "nat \<Rightarrow> string \<times> string"
  llm :: "nat \<Rightarrow> prompt \<Rightarrow> proposal list"
  fmt :: formatting

text \<open>The simulated executor of the repository as such a collaborator: it never raises.\<close>

definition simulated_executor ::
  "(nat \<Rightarrow> draws) \<Rightarrow> nat \<Rightarrow> configuration \<Rightarrow> error + metrics \<times> artifacts" where
  "simulated_executor D k c = Inr (run_campaign (D k) c)"

text \<open>
  The mutable state of \<open>run\<close>: the fields \<open>world_model\<close> and \<open>planner_context\<close> of the
  loop object and the local variables \<open>budget_used\<close> and \<open>iteration\<close>. An exception leaves
  \<open>run\<close> with the error and the world model as it is at that moment.
\<close>

record loop_state =
  self_world_model :: world_model
  planner_context :: pydict
  budget_used :: int
  iteration :: int

type_synonym raised = "error \<times> world_model"

text \<open>Phase 1: the seed experiments.\<close>

fun seed_loop :: "env \<Rightarrow> configuration list \<Rightarrow> world_model \<Rightarrow> raised + world_model" where
  "seed_loop E [] wm = Inr wm"
| "seed_loop E (c # cs) wm =
     (case executor E (length (experiments wm)) c of
        Inl err \<Rightarrow> Inl (err, wm)
      | Inr (m, a) \<Rightarrow> seed_loop E cs (update (uuid4 E (length (experiments wm))) wm c m a))"

text \<open>Phase C of an iteration: run the proposed configurations until the budget is reached.\<close>

fun execute_configs ::
  "env \<Rightarrow> int \<Rightarrow> configuration list \<Rightarrow> world_model \<Rightarrow> int \<Rightarrow> raised + world_model \<times> int"
where
  "execute_configs E budget_max [] wm used = Inr (wm, used)"
| "execute_configs E budget_max (c # cs) wm used =
     (case executor E (length (experiments wm)) c of
        Inl err \<Rightarrow> Inl (err, wm)
      | Inr (m, a) \<Rightarrow>
          (let wm' = update (uuid4 E (length (experiments wm))) wm c m a;
               used' = used + 1
           in if used' \<ge> budget_max then Inr (wm', used')
              else execute_configs E budget_max cs wm' used'))"

text \<open>The format specification \<open>:.2f\<close> applied to a summary value.\<close>

fun format_2f :: "pyval \<Rightarrow> error + unit" where
  "format_2f (PFloat x) = Inr ()"
| "format_2f (PInt n) = Inr ()"
| "format_2f (PBool b) = Inr ()"
| "format_2f (PStr s) = Inl ValueError"
| "format_2f _ = Inl TypeError"

definition print_summary :: "pydict \<Rightarrow> error + unit" where
  "print_summary summary =
     (case dict_item summary ''total_experiments'' of
        Inl err \<Rightarrow> Inl err
      | Inr total_experiments \<Rightarrow>
          (case dict_item summary ''best_psnr'' of
             Inl err \<Rightarrow> Inl err
           | Inr best \<Rightarrow>
               (case format_2f best of
                  Inl err \<Rightarrow> Inl err
                | Inr u \<Rightarrow>
                    (case dict_item summary ''avg_psnr'' of
                       Inl err \<Rightarrow> Inl err
                     | Inr avg \<Rightarrow> format_2f avg))))"

text \<open>One iteration of the discovery loop, phases A to E.\<close>

definition discovery_round :: "env \<Rightarrow> design_space \<Rightarrow> int \<Rightarrow> loop_state \<Rightarrow> raised + loop_state" where
  "discovery_round E ds budget_max s =
     (let iteration' = iteration s + 1;
          wm = self_world_model s;
          summary = summarize_world_model wm
      in case print_summary summary of
           Inl err \<Rightarrow> Inl (err, wm)
         | Inr u \<Rightarrow>
             (let budget_remaining = budget_max - budget_used s in
              case planner_step (llm E (nat iteration')) summary ds budget_remaining of
                Inl err \<Rightarrow> Inl (err, wm)
              | Inr new_configs \<Rightarrow>
                  (case execute_configs E budget_max new_configs wm (budget_used s) of
                     Inl raised \<Rightarrow> Inl raised
                   | Inr (wm', used') \<Rightarrow>
                       (case analysis_step (fmt E) wm' of
                          Inl err \<Rightarrow> Inl (err, wm')
                        | Inr (pareto_set, trends) \<Rightarrow>
                            Inr \<lparr>self_world_model = wm',
                                 planner_context =
                                   dict_set ''pareto_size'' (PInt (int (card pareto_set)))
                                     (dict_set ''trends'' (PList (map PStr trends)) (planner_context s)),
                                 budget_used = used',
                                 iteration = iteration'\<rparr>))))"

text \<open>
  Phase 2: the \<open>while\<close> loop. It may run forever, so it is a partial function: the value
  \<open>None\<close> is a loop that never exits.
\<close>

partial_function (option) discovery_loop ::
  "env \<Rightarrow> design_space \<Rightarrow> int \<Rightarrow> loop_state \<Rightarrow> (raised + loop_state) option"
where
  "discovery_loop E ds budget_max s =
     (if budget_used s < budget_max then
        (case discovery_round E ds budget_max s of
           Inl raised \<Rightarrow> Some (Inl raised)
         | Inr s' \<Rightarrow> discovery_loop E ds budget_max s')
      else Some (Inr s))"

text \<open>
  \<open>AIScientistLoop(design_space, initial_configs, budget_max).run()\<close> on a freshly
  constructed loop object: the world model starts empty and the planner context is \<open>{}\<close>.
\<close>

definition run ::
  "env \<Rightarrow> design_space \<Rightarrow> configuration list \<Rightarrow> int \<Rightarrow> (raised + string set \<times> world_model) option"
where
  "run E ds initial_configs budget_max =
     (case seed_loop E initial_configs empty_world_model of
        Inl raised \<Rightarrow> Some (Inl raised)
      | Inr wm \<Rightarrow>
          (case discovery_loop E ds budget_max
                  \<lparr>self_world_model = wm, planner_context = [],
                   budget_used = int (length initial_configs), iteration = 0\<rparr> of
             None \<Rightarrow> None
           | Some (Inl raised) \<Rightarrow> Some (Inl raised)
           | Some (Inr s) \<Rightarrow>
               (case analysis_step (fmt E) (self_world_model s) of
                  Inl err \<Rightarrow> Some (Inl (err, self_world_model s))
                | Inr (final_pareto, final_trends) \<Rightarrow>
                    Some (Inr (final_pareto, self_world_model s)))))"

section \<open>Notions of the specification\<close>

subsection \<open>Domination\<close>





text \<open>
  Every objective is a number on every record (NaN included), and every objective is a
  number other than NaN on every record.
\<close>

definition numeric_objectives :: "attribute_table \<Rightarrow> experiment_record list \<Rightarrow> string list \<Rightarrow> bool" where
  "numeric_objectives T exps objectives =
     list_all (\<lambda>e. list_all (\<lambda>obj. is_Number (getattr0 T (metrics e) obj)) objectives) exps"




subsection \<open>Example inputs\<close>

definition example_config :: configuration where
  "example_config = \<lparr>forward_config = [], recon_family = ''CIAS-Core'', recon_params = [],
     uq_scheme = ''None'', uq_params = [], train_config = []\<rparr>"

definition example_artifacts :: artifacts where
  "example_artifacts = \<lparr>checkpoint = ''c.pth'', fitted_uq_params = [], train_log = ''t.txt'',
     eval_samples = [], fig_scripts = []\<rparr>"

definition float_metrics :: "pyfloat \<Rightarrow> pyfloat \<Rightarrow> metrics" where
  "float_metrics p c =
     \<lparr>psnr = p, coverage = c, latency = Finite 20, calibration_error = None, other_metrics = []\<rparr>"


definition example_metrics :: "real \<Rightarrow> real \<Rightarrow> metrics" where
  "example_metrics p c = float_metrics (Finite p) (Finite c)"


definition empty_proposal :: proposal where
  "empty_proposal = \<lparr>p_forward_config = None, p_recon_family = None, p_recon_params = None,
     p_uq_scheme = None, p_uq_params = None, p_train_config = None\<rparr>"

definition example_design_space :: design_space where
  "example_design_space =
     [(''recon_families'', [''Baseline-CNN'', ''CIAS-Core'']), (''uq_schemes'', [''Conformal'', ''None''])]"

text \<open>
  An attribute table: the names that CPython 3.12 gives an instance of a dataclass with
  the default options, beside its fields. The docstring, the module name and
  \<open>__match_args__\<close> are a string, a string and a tuple of strings; \<open>__hash__\<close> and
  \<open>__weakref__\<close> are \<open>None\<close>; the others are the class, mappings and methods.
\<close>

definition example_attributes :: attribute_table where
  "example_attributes name =
     (if name \<in> set [''__doc__'', ''__module__'', ''__match_args__''] then Some Shared
      else if name \<in> set [''__annotations__'', ''__class__'', ''__dataclass_fields__'',
          ''__dataclass_params__'', ''__delattr__'', ''__dict__'', ''__dir__'', ''__eq__'',
          ''__format__'', ''__ge__'', ''__getattribute__'', ''__getstate__'', ''__gt__'',
          ''__hash__'', ''__init__'', ''__init_subclass__'', ''__le__'', ''__lt__'', ''__ne__'',
          ''__new__'', ''__reduce__'', ''__reduce_ex__'', ''__repr__'', ''__setattr__'',
          ''__sizeof__'', ''__str__'', ''__subclasshook__'', ''__weakref__'']
      then Some Unordered
      else None)"

subsection \<open>Index consistency\<close>

text \<open>
  A sequence of \<open>WorldModelManager.update\<close> calls, applied to an empty world model, and
  the invariant of the specification: every pair in an index names the id of a record
  of the record list, and every record has its family pair and its scheme pair in the
  respective index. \<open>indices_of\<close> is the index content that the proof maintains.
\<close>

type_synonym update_call = "(string \<times> string) \<times> configuration \<times> metrics \<times> artifacts"

definition replay_updates :: "update_call list \<Rightarrow> world_model" where
  "replay_updates calls =
     foldl (\<lambda>wm (uuids, c, m, a). update uuids wm c m a) empty_world_model calls"

definition index_consistent :: "world_model \<Rightarrow> bool" where
  "index_consistent wm =
     ((\<forall>(name, bucket)\<in>set (indices wm). \<forall>(v, i)\<in>set bucket.
         \<exists>r\<in>set (experiments wm). exp_id r = i) \<and>
      (\<forall>r\<in>set (experiments wm).
         (recon_family (config r), exp_id r) \<in> set (dict_get (indices wm) ''recon_family'' []) \<and>
         (uq_scheme (config r), exp_id r) \<in> set (dict_get (indices wm) ''uq_scheme'' [])))"

definition indices_of :: "experiment_record list \<Rightarrow> (string \<times> (string \<times> string) list) list" where
  "indices_of exps =
     (if exps = [] then []
      else [(''recon_family'', map (\<lambda>r. (recon_family (config r), exp_id r)) exps),
            (''uq_scheme'', map (\<lambda>r. (uq_scheme (config r), exp_id r)) exps)])"

definition example_calls :: "update_call list" where
  "example_calls =
     [((''id-1'', ''id-1b''), example_config, example_metrics 30 0.9, example_artifacts),
      ((''id-2'', ''id-2b''), example_config\<lparr>uq_scheme := ''Conformal''\<rparr>, example_metrics 28 0.85,
       example_artifacts)]"

subsection \<open>Strata\<close>

text \<open>
  The Pareto front of one stratum under the objectives of \<open>analysis_step\<close> (both are
  fields, so the attribute table plays no part), and what it
  means for the strata to partition the records: the keys are distinct, each stratum is
  not empty and holds exactly the records of its key in their order, and together the
  strata hold every record once.
\<close>

definition stratum_front :: "experiment_record list \<Rightarrow> string set" where
  "stratum_front es =
     (case compute_pareto_front (\<lambda>name. None) es [''psnr'', ''coverage''] of
        Inl err \<Rightarrow> {}
      | Inr ids \<Rightarrow> ids)"


definition example_formatting :: formatting where
  "example_formatting =
     \<lparr>fmt_int = (\<lambda>n. ''n''), fmt_2f = (\<lambda>x. ''x.xx''), fmt_3f = (\<lambda>x. ''x.xxx''),
      repr_str = (\<lambda>s. [CHR 0x27] @ s @ [CHR 0x27]), object_attributes = example_attributes\<rparr>"


subsection \<open>Budget accounting\<close>

text \<open>
  The invariant of the discovery loop (\<open>budget_used\<close> is the number of records), what
  the loop leaves behind when it is entered with that invariant, and the world model an
  outcome of \<open>run\<close> carries.
\<close>

definition budget_tracks_records :: "loop_state \<Rightarrow> bool" where
  "budget_tracks_records s = (budget_used s = int (length (experiments (self_world_model s))))"

definition loop_budget_ok :: "int \<Rightarrow> loop_state \<Rightarrow> raised + loop_state \<Rightarrow> bool" where
  "loop_budget_ok B s out =
     (case out of
        Inl (err, wm) \<Rightarrow>
          budget_used s \<le> int (length (experiments wm)) \<and> int (length (experiments wm)) < B
      | Inr s' \<Rightarrow> budget_tracks_records s' \<and> budget_used s' = max (budget_used s) B)"

definition final_world_model :: "raised + string set \<times> world_model \<Rightarrow> world_model" where
  "final_world_model out = (case out of Inl (err, wm) \<Rightarrow> wm | Inr (pareto, wm) \<Rightarrow> wm)"

subsection \<open>Example collaborators\<close>

text \<open>
  A deterministic instance of the collaborators, with the repository's simulated executor
  and its fixed proposals; the world model after one seed; the three proposals as
  projected onto the example design space; the world model after the first of them has
  run; an executor that raises on its second call; and a proposal generator that never
  proposes anything.
\<close>

definition example_draws :: draws where
  "example_draws = \<lparr>draw_psnr = 1, draw_coverage = 0.9, draw_latency = 20, draw_calibration = 0.05,
     hex_checkpoint = ''0a1b2c3d'', hex_log = ''4e5f6a7b''\<rparr>"

definition example_uuid4 :: "nat \<Rightarrow> string \<times> string" where
  "example_uuid4 k = (''id-'' @ replicate k (CHR ''x''), ''spare'')"

definition example_env :: env where
  "example_env = \<lparr>executor = simulated_executor (\<lambda>k. example_draws), uuid4 = example_uuid4,
     llm = (\<lambda>k. llm_generate_configs), fmt = example_formatting\<rparr>"

definition example_seeded :: world_model where
  "example_seeded =
     update (example_uuid4 0) empty_world_model example_config
       (fst (run_campaign example_draws example_config))
       (snd (run_campaign example_draws example_config))"

definition example_proposals :: "configuration list" where
  "example_proposals =
     [\<lparr>forward_config = [(''compression_ratio'', PInt 8)],
       recon_family = ''Baseline-CNN'',
       recon_params = [(''num_layers'', PInt 10), (''hidden_dim'', PInt 128)],
       uq_scheme = ''Conformal'',
       uq_params = [(''alpha'', PFloat (Finite 0.1))],
       train_config = [(''epochs'', PInt 50), (''lr'', PFloat (Finite 0.001))]\<rparr>,
      \<lparr>forward_config = [(''compression_ratio'', PInt 16)],
       recon_family = ''CIAS-Core'',
       recon_params = [(''num_layers'', PInt 8), (''hidden_dim'', PInt 64)],
       uq_scheme = ''Ensemble'',
       uq_params = [(''n_models'', PInt 5)],
       train_config = [(''epochs'', PInt 40), (''lr'', PFloat (Finite 0.0005))]\<rparr>,
      \<lparr>forward_config = [(''compression_ratio'', PInt 8)],
       recon_family = ''Baseline-CNN'',
       recon_params = [(''num_layers'', PInt 6)],
       uq_scheme = ''None'',
       uq_params = [],
       train_config = [(''epochs'', PInt 30), (''lr'', PFloat (Finite 0.001))]\<rparr>]"

definition example_round :: world_model where
  "example_round =
     update (example_uuid4 1) example_seeded (hd example_proposals)
       (fst (run_campaign example_draws (hd example_proposals)))
       (snd (run_campaign example_draws (hd example_proposals)))"


definition silent_env :: env where
  "silent_env = example_env\<lparr>llm := (\<lambda>k pr. [])\<rparr>"

subsection \<open>Dataclass instances, export and import\<close>



















section \<open>Properties\<close>

subsection \<open>Floats\<close>


lemma float_less_trans: "float_less x y \<Longrightarrow> float_less y z \<Longrightarrow> float_less x z"
  by (cases x; cases y; cases z) simp_all


lemma float_le_less_trans:
  "\<not> float_less y x \<Longrightarrow> float_less y z \<Longrightarrow> x \<noteq> NaN \<Longrightarrow> y \<noteq> NaN \<Longrightarrow> float_less x z"
  by (cases x; cases y; cases z) simp_all


subsection \<open>The Pareto front\<close>


lemma numeric_objectives_iff:
  "numeric_objectives T exps objs =
     (\<forall>e\<in>set exps. \<forall>obj\<in>set objs. is_Number (getattr0 T (metrics e) obj))"
  by (simp add: numeric_objectives_def list_all_iff)


text \<open>Between numbers no comparison raises, NaN or not.\<close>

lemma objectives_loop_numeric:
  assumes "\<forall>obj\<in>set objs. is_Number (getattr0 T m1 obj) \<and> is_Number (getattr0 T m2 obj)"
  shows "\<not> isl (objectives_loop T m1 m2 objs s)"
  using assms
proof (induction objs arbitrary: s)
  case Nil
  show ?case by simp
next
  case (Cons obj objs)
  from Cons.prems obtain x y where
    xy: "getattr0 T m1 obj = Number x" "getattr0 T m2 obj = Number y"
    by (auto simp: is_Number_def)
  have rest: "\<forall>obj\<in>set objs. is_Number (getattr0 T m1 obj) \<and> is_Number (getattr0 T m2 obj)"
    using Cons.prems by simp
  show ?case
  proof (cases "float_less y x")
    case True
    then show ?thesis by (simp add: xy)
  next
    case False
    then show ?thesis
      using Cons.IH[OF rest, of "if float_greater y x then True else s"] by (simp add: xy)
  qed
qed

lemma exp2_loop_numeric:
  assumes "\<forall>e\<in>set (a # rest). \<forall>obj\<in>set objs. is_Number (getattr0 T (metrics e) obj)"
  shows "\<not> isl (exp2_loop T a objs rest)"
  using assms
proof (induction rest)
  case Nil
  show ?case by simp
next
  case (Cons b rest)
  have "\<forall>obj\<in>set objs. is_Number (getattr0 T (metrics a) obj) \<and> is_Number (getattr0 T (metrics b) obj)"
    using Cons.prems by simp
  then have "\<not> isl (objectives_loop T (metrics a) (metrics b) objs False)"
    by (rule objectives_loop_numeric)
  moreover have "\<not> isl (exp2_loop T a objs rest)" using Cons by simp
  ultimately show ?case by (auto split: sum.splits prod.splits)
qed

lemma exp1_loop_numeric:
  assumes "\<forall>e\<in>set all. \<forall>obj\<in>set objs. is_Number (getattr0 T (metrics e) obj)"
    and "set rest \<subseteq> set all"
  shows "\<not> isl (exp1_loop T all objs rest acc)"
  using assms(2)
proof (induction rest arbitrary: acc)
  case Nil
  show ?case by simp
next
  case (Cons a rest)
  have "\<forall>e\<in>set (a # all). \<forall>obj\<in>set objs. is_Number (getattr0 T (metrics e) obj)"
    using assms(1) Cons.prems by auto
  then have q: "\<not> isl (exp2_loop T a objs all)" by (rule exp2_loop_numeric)
  have sub: "set rest \<subseteq> set all" using Cons.prems by simp
  show ?case using q Cons.IH[OF sub] by (auto split: sum.splits)
qed

lemma compute_pareto_front_numeric:
  assumes "numeric_objectives T exps objs"
  shows "\<exists>front. compute_pareto_front T exps objs = Inr front"
proof -
  have "\<forall>e\<in>set exps. \<forall>obj\<in>set objs. is_Number (getattr0 T (metrics e) obj)"
    using assms by (simp add: numeric_objectives_iff)
  from exp1_loop_numeric[OF this subset_refl, of "{}"]
  have "\<not> isl (compute_pareto_front T exps objs)" by (simp add: compute_pareto_front_def)
  then show ?thesis by (cases "compute_pareto_front T exps objs") auto
qed

text \<open>The default objectives are fields: they are numbers, whatever the attribute table.\<close>

lemma default_objectives_numeric: "numeric_objectives T exps [''psnr'', ''coverage'']"
  by (simp add: numeric_objectives_iff getattr0_def metrics_attr_def)

lemma objectives_loop_table:
  assumes "\<forall>m. \<forall>obj\<in>set objs. getattr0 T m obj = getattr0 T' m obj"
  shows "objectives_loop T m1 m2 objs s = objectives_loop T' m1 m2 objs s"
  using assms
proof (induction objs arbitrary: s)
  case Nil
  show ?case by simp
next
  case (Cons obj objs)
  have here: "getattr0 T m1 obj = getattr0 T' m1 obj" "getattr0 T m2 obj = getattr0 T' m2 obj"
    using Cons.prems by simp_all
  have "objectives_loop T m1 m2 objs s' = objectives_loop T' m1 m2 objs s'" for s'
    using Cons by simp
  then show ?case by (auto simp: here Let_def split: sum.splits bool.splits)
qed

lemma exp2_loop_table:
  assumes "\<forall>m. \<forall>obj\<in>set objs. getattr0 T m obj = getattr0 T' m obj"
  shows "exp2_loop T a objs rest = exp2_loop T' a objs rest"
proof (induction rest)
  case Nil
  show ?case by simp
next
  case (Cons b rest)
  show ?case by (auto simp: objectives_loop_table[OF assms] Cons.IH split: sum.splits prod.splits)
qed

lemma exp1_loop_table:
  assumes "\<forall>m. \<forall>obj\<in>set objs. getattr0 T m obj = getattr0 T' m obj"
  shows "exp1_loop T all objs rest acc = exp1_loop T' all objs rest acc"
proof (induction rest arbitrary: acc)
  case Nil
  show ?case by simp
next
  case (Cons a rest)
  show ?case by (auto simp: exp2_loop_table[OF assms] Cons.IH split: sum.splits)
qed

lemma default_objectives_table:
  "\<forall>m. \<forall>obj\<in>set [''psnr'', ''coverage'']. getattr0 T m obj = getattr0 T' m obj"
  by (simp add: getattr0_def metrics_attr_def)

lemma compute_pareto_front_default:
  "compute_pareto_front T es [''psnr'', ''coverage''] = Inr (stratum_front es)"
proof -
  obtain front where "compute_pareto_front (\<lambda>name. None) es [''psnr'', ''coverage''] = Inr front"
    using compute_pareto_front_numeric[OF default_objectives_numeric] by blast
  then have "compute_pareto_front (\<lambda>name. None) es [''psnr'', ''coverage''] = Inr (stratum_front es)"
    by (simp add: stratum_front_def)
  moreover have "compute_pareto_front T es [''psnr'', ''coverage''] =
                 compute_pareto_front (\<lambda>name. None) es [''psnr'', ''coverage'']"
    by (simp add: compute_pareto_front_def exp1_loop_table[OF default_objectives_table])
  ultimately show ?thesis by simp
qed
















subsection \<open>Projection of proposals\<close>

text \<open>
  Claim C7, as the code has it. For a design space whose \<open>recon_families\<close> list is not
  empty, \<open>project_to_design_space\<close> returns a configuration. Its family is the proposed
  tag when the tag is declared and the first declared family when the tag is proposed
  but not declared. When the proposal has no tag, the tag defaults to \<open>CIAS-Core\<close>,
  which is checked like a proposed one: the family is \<open>CIAS-Core\<close> if that is declared
  and the first declared family otherwise. A missing \<open>uq_scheme\<close> gives \<open>None\<close> (the
  string), missing parameter mappings give empty mappings.
\<close>

theorem project_to_design_space_default:
  assumes "dict_get ds ''recon_families'' [] = families" and "families \<noteq> []"
  shows "\<exists>c. project_to_design_space p ds = Inr c \<and>
           (\<forall>tag. p_recon_family p = Some tag \<and> tag \<in> set families \<longrightarrow> recon_family c = tag) \<and>
           (\<forall>tag. p_recon_family p = Some tag \<and> tag \<notin> set families \<longrightarrow> recon_family c = hd families) \<and>
           (p_recon_family p = None \<and> ''CIAS-Core'' \<in> set families \<longrightarrow> recon_family c = ''CIAS-Core'') \<and>
           (p_recon_family p = None \<and> ''CIAS-Core'' \<notin> set families \<longrightarrow> recon_family c = hd families) \<and>
           (p_uq_scheme p = None \<longrightarrow> uq_scheme c = ''None'') \<and>
           (\<forall>u. p_uq_scheme p = Some u \<longrightarrow> uq_scheme c = u) \<and>
           (p_forward_config p = None \<longrightarrow> forward_config c = []) \<and>
           (p_recon_params p = None \<longrightarrow> recon_params c = []) \<and>
           (p_uq_params p = None \<longrightarrow> uq_params c = []) \<and>
           (p_train_config p = None \<longrightarrow> train_config c = [])"
proof -
  obtain f fs where fam: "families = f # fs" using assms(2) by (cases families) auto
  have item: "dict_item ds ''recon_families'' = Inr (f # fs)"
    using assms(1) fam by (auto simp: dict_get_def dict_item_def split: option.splits)
  have first: "first_family ds = Inr f"
    by (simp add: first_family_def item)
  show ?thesis
    using assms(1) fam first
    by (cases "p_recon_family p")
       (auto simp: project_to_design_space_def option_get_def Let_def)
qed

text \<open>An undeclared tag is replaced by the first declared family.\<close>

theorem project_to_design_space_default_witness:
  "dict_get example_design_space ''recon_families'' [] = [''Baseline-CNN'', ''CIAS-Core''] \<and>
   project_to_design_space (empty_proposal\<lparr>p_recon_family := Some ''Transformer''\<rparr>) example_design_space
     = Inr \<lparr>forward_config = [], recon_family = ''Baseline-CNN'', recon_params = [],
            uq_scheme = ''None'', uq_params = [], train_config = []\<rparr>"
proof -
  have d: "dict_get example_design_space ''recon_families'' [] = [''Baseline-CNN'', ''CIAS-Core'']"
    by (simp add: dict_get_def example_design_space_def)
  have n: "[''Baseline-CNN'', ''CIAS-Core''] \<noteq> ([] :: string list)" by simp
  have r: "project_to_design_space (empty_proposal\<lparr>p_recon_family := Some ''Transformer''\<rparr>) example_design_space
     = Inr \<lparr>forward_config = [], recon_family = ''Baseline-CNN'', recon_params = [],
            uq_scheme = ''None'', uq_params = [], train_config = []\<rparr>"
    by (simp add: project_to_design_space_def option_get_def empty_proposal_def first_family_def
          dict_item_def dict_get_def example_design_space_def Let_def)
  show ?thesis
    using project_to_design_space_default[OF d n, of "empty_proposal\<lparr>p_recon_family := Some ''Transformer''\<rparr>"] d r
    by simp
qed

text \<open>
  Claim C7 as stated has the first declared family for a proposal without a tag. Here the
  first declared family is \<open>Baseline-CNN\<close>, the proposal has no tag, and the result is
  \<open>CIAS-Core\<close>.
\<close>

theorem project_absent_tag_counterexample:
  "p_recon_family empty_proposal = None \<and>
   dict_get example_design_space ''recon_families'' [] = [''Baseline-CNN'', ''CIAS-Core''] \<and>
   project_to_design_space empty_proposal example_design_space
     = Inr \<lparr>forward_config = [], recon_family = ''CIAS-Core'', recon_params = [],
            uq_scheme = ''None'', uq_params = [], train_config = []\<rparr>"
  by (simp add: project_to_design_space_def option_get_def empty_proposal_def dict_get_def
        example_design_space_def Let_def)

subsection \<open>The index invariant of the world model\<close>

lemma update_indices_of:
  assumes "indices wm = indices_of (experiments wm)"
  shows "indices (update uuids wm c m a) = indices_of (experiments (update uuids wm c m a))"
proof (cases "experiments wm = []")
  case True
  then show ?thesis using assms
    by (simp add: update_def indices_of_def dict_append_def dict_set_def dict_get_def Let_def
          post_init_def)
next
  case False
  then show ?thesis using assms
    by (simp add: update_def indices_of_def dict_append_def dict_set_def dict_get_def Let_def
          post_init_def)
qed

lemma replay_indices_of:
  "indices (replay_updates calls) = indices_of (experiments (replay_updates calls))"
proof (induction calls rule: rev_induct)
  case Nil
  show ?case by (simp add: replay_updates_def empty_world_model_def indices_of_def)
next
  case (snoc call calls)
  obtain uuids c m a where call: "call = (uuids, c, m, a)" by (cases call) auto
  have step: "replay_updates (calls @ [call]) = update uuids (replay_updates calls) c m a"
    by (simp add: replay_updates_def call)
  show ?case unfolding step using snoc.IH by (rule update_indices_of)
qed

lemma indices_of_consistent:
  "indices wm = indices_of (experiments wm) \<Longrightarrow> index_consistent wm"
  by (auto simp: index_consistent_def indices_of_def dict_get_def)

text \<open>
  Claim C8. After any sequence of \<open>update\<close> calls that starts from an empty world model,
  every (value, id) pair stored in an index has a record with that id in the record
  list, and every record's family tag and scheme tag are in the \<open>recon_family\<close> and
  \<open>uq_scheme\<close> index with the record's id.
\<close>

theorem update_index_consistent: "index_consistent (replay_updates calls)"
  using replay_indices_of by (rule indices_of_consistent)

lemma replay_length: "length (experiments (replay_updates calls)) = length calls"
proof (induction calls rule: rev_induct)
  case Nil
  show ?case by (simp add: replay_updates_def empty_world_model_def)
next
  case (snoc call calls)
  obtain uuids c m a where call: "call = (uuids, c, m, a)" by (cases call) auto
  have step: "replay_updates (calls @ [call]) = update uuids (replay_updates calls) c m a"
    by (simp add: replay_updates_def call)
  show ?case unfolding step using snoc.IH by (simp add: update_def Let_def)
qed

text \<open>Two updates, and the indices they leave.\<close>

theorem update_index_consistent_witness:
  "index_consistent (replay_updates example_calls) \<and>
   map exp_id (experiments (replay_updates example_calls)) = [''id-1'', ''id-2''] \<and>
   indices (replay_updates example_calls) =
     [(''recon_family'', [(''CIAS-Core'', ''id-1''), (''CIAS-Core'', ''id-2'')]),
      (''uq_scheme'', [(''None'', ''id-1''), (''Conformal'', ''id-2'')])]"
proof -
  have "map exp_id (experiments (replay_updates example_calls)) = [''id-1'', ''id-2'']"
    by (simp add: replay_updates_def example_calls_def update_def Let_def post_init_def
          empty_world_model_def)
  moreover have "indices (replay_updates example_calls) =
     [(''recon_family'', [(''CIAS-Core'', ''id-1''), (''CIAS-Core'', ''id-2'')]),
      (''uq_scheme'', [(''None'', ''id-1''), (''Conformal'', ''id-2'')])]"
    by (simp add: replay_updates_def example_calls_def update_def Let_def post_init_def
          empty_world_model_def dict_append_def dict_set_def dict_get_def example_config_def)
  ultimately show ?thesis using update_index_consistent[of example_calls] by simp
qed

subsection \<open>Stratified analysis\<close>













lemma calibration_mean_error:
  "\<exists>x. dict_item (compute_calibration_stats es) ''mean_error'' = Inr x"
  by (simp add: compute_calibration_stats_def dict_item_def Let_def split: list.splits)

lemma summarize_trends_ok:
  "\<exists>t. summarize_trends F es ids (compute_calibration_stats es) = Inr t"
proof -
  obtain x where "dict_item (compute_calibration_stats es) ''mean_error'' = Inr x"
    using calibration_mean_error by blast
  then show ?thesis
    by (simp add: summarize_trends_def Let_def split: list.splits)
qed

lemma strata_loop_result:
  "\<exists>new. strata_loop F strata ids trends =
           Inr (ids \<union> (\<Union>(k, es)\<in>set strata. stratum_front es), trends @ new) \<and>
         list_all2 (\<lambda>(k, es) trend. \<exists>t. trend = ''['' @ str_tuple F k @ ''] '' @ t) strata new"
proof (induction strata arbitrary: ids trends)
  case Nil
  show ?case by simp
next
  case (Cons p strata)
  obtain k es where p: "p = (k, es)" by (cases p)
  obtain t where t: "summarize_trends F es (stratum_front es) (compute_calibration_stats es) = Inr t"
    using summarize_trends_ok by blast
  let ?trend = "''['' @ str_tuple F k @ ''] '' @ t"
  from Cons.IH[of "ids \<union> stratum_front es" "trends @ [?trend]"]
  obtain new where new:
    "strata_loop F strata (ids \<union> stratum_front es) (trends @ [?trend]) =
       Inr (ids \<union> stratum_front es \<union> (\<Union>(k, es)\<in>set strata. stratum_front es),
            (trends @ [?trend]) @ new)"
    "list_all2 (\<lambda>(k, es) trend. \<exists>t. trend = ''['' @ str_tuple F k @ ''] '' @ t) strata new"
    by blast
  have "strata_loop F (p # strata) ids trends =
          Inr (ids \<union> (\<Union>(k, es)\<in>set (p # strata). stratum_front es), trends @ (?trend # new))"
    using new(1) by (simp add: p compute_pareto_front_default t Un_assoc)
  moreover have "list_all2 (\<lambda>(k, es) trend. \<exists>t. trend = ''['' @ str_tuple F k @ ''] '' @ t)
                   (p # strata) (?trend # new)"
    using new(2) by (simp add: p)
  ultimately show ?case by blast
qed




subsection \<open>The scientist loop\<close>

lemma update_length:
  "length (experiments (update uuids wm c m a)) = Suc (length (experiments wm))"
  by (simp add: update_def Let_def)

lemma analysis_step_ok: "\<exists>ids trends. analysis_step F wm = Inr (ids, trends)"
  using strata_loop_result[of F "group_strata (get_all_experiments wm)" "{}" "[]"]
  by (auto simp: analysis_step_def)

lemma seed_loop_length:
  "seed_loop E cs wm = Inr wm' \<Longrightarrow> length (experiments wm') = length (experiments wm) + length cs"
proof (induction cs arbitrary: wm)
  case Nil
  then show ?case by simp
next
  case (Cons c cs)
  then show ?case
    by (auto simp: update_length split: sum.splits prod.splits)
qed

lemma seed_loop_raised:
  "seed_loop E cs wm = Inl (err, wm') \<Longrightarrow>
     length (experiments wm) \<le> length (experiments wm') \<and>
     length (experiments wm') < length (experiments wm) + length cs"
proof (induction cs arbitrary: wm)
  case Nil
  then show ?case by simp
next
  case (Cons c cs)
  show ?case
  proof (cases "executor E (length (experiments wm)) c")
    case (Inl e)
    then show ?thesis using Cons.prems by simp
  next
    case (Inr ma)
    obtain m a where ma: "ma = (m, a)" by (cases ma)
    have "seed_loop E cs (update (uuid4 E (length (experiments wm))) wm c m a) = Inl (err, wm')"
      using Cons.prems Inr ma by simp
    from Cons.IH[OF this] show ?thesis by (simp add: update_length)
  qed
qed

lemma execute_configs_returns:
  "execute_configs E B cs wm used = Inr (wm', used') \<Longrightarrow> used < B \<Longrightarrow>
     used' \<le> B \<and> used' - used = min (int (length cs)) (B - used) \<and>
     int (length (experiments wm')) = int (length (experiments wm)) + (used' - used)"
proof (induction cs arbitrary: wm used)
  case Nil
  then show ?case by simp
next
  case (Cons c cs)
  show ?case
  proof (cases "executor E (length (experiments wm)) c")
    case (Inl e)
    then show ?thesis using Cons.prems by simp
  next
    case (Inr ma)
    obtain m a where ma: "ma = (m, a)" by (cases ma)
    let ?wm = "update (uuid4 E (length (experiments wm))) wm c m a"
    show ?thesis
    proof (cases "used + 1 \<ge> B")
      case True
      then have "wm' = ?wm" "used' = used + 1"
        using Cons.prems(1) Inr ma by (simp_all add: Let_def)
      then show ?thesis using True Cons.prems(2) by (simp add: update_length)
    next
      case False
      then have "execute_configs E B cs ?wm (used + 1) = Inr (wm', used')"
        using Cons.prems(1) Inr ma by (simp add: Let_def)
      from Cons.IH[OF this] False show ?thesis by (auto simp: update_length)
    qed
  qed
qed

lemma execute_configs_raised:
  "execute_configs E B cs wm used = Inl (err, wm') \<Longrightarrow> used < B \<Longrightarrow>
     length (experiments wm) \<le> length (experiments wm') \<and>
     int (length (experiments wm')) - int (length (experiments wm)) < min (int (length cs)) (B - used)"
proof (induction cs arbitrary: wm used)
  case Nil
  then show ?case by simp
next
  case (Cons c cs)
  show ?case
  proof (cases "executor E (length (experiments wm)) c")
    case (Inl e)
    then show ?thesis using Cons.prems by simp
  next
    case (Inr ma)
    obtain m a where ma: "ma = (m, a)" by (cases ma)
    let ?wm = "update (uuid4 E (length (experiments wm))) wm c m a"
    show ?thesis
    proof (cases "used + 1 \<ge> B")
      case True
      then show ?thesis using Cons.prems(1) Inr ma by (simp add: Let_def)
    next
      case False
      then have "execute_configs E B cs ?wm (used + 1) = Inl (err, wm')"
        using Cons.prems(1) Inr ma by (simp add: Let_def)
      from Cons.IH[OF this] False show ?thesis by (auto simp: update_length)
    qed
  qed
qed

lemma discovery_round_returns:
  assumes "discovery_round E ds B s = Inr s'" and "budget_used s < B" and "budget_tracks_records s"
  shows "budget_tracks_records s' \<and> budget_used s \<le> budget_used s' \<and> budget_used s' \<le> B"
proof -
  from assms(1) obtain cs wm' used' where
    ex: "execute_configs E B cs (self_world_model s) (budget_used s) = Inr (wm', used')" and
    s': "self_world_model s' = wm'" "budget_used s' = used'"
    by (auto simp: discovery_round_def Let_def split: sum.splits prod.splits)
  from execute_configs_returns[OF ex assms(2)] show ?thesis
    using assms(2,3) s' by (auto simp: budget_tracks_records_def)
qed

lemma discovery_round_raised:
  assumes "discovery_round E ds B s = Inl (err, wm')" and "budget_used s < B" and "budget_tracks_records s"
  shows "budget_used s \<le> int (length (experiments wm')) \<and> int (length (experiments wm')) < B"
proof -
  consider (same) "wm' = self_world_model s"
    | (exec) cs where "execute_configs E B cs (self_world_model s) (budget_used s) = Inl (err, wm')"
    | (analysis) cs used' where
        "execute_configs E B cs (self_world_model s) (budget_used s) = Inr (wm', used')"
        "discovery_round E ds B s = Inl (err, wm')"
        "\<exists>e. analysis_step (fmt E) wm' = Inl e"
    using assms(1)
    by (auto simp: discovery_round_def Let_def split: sum.splits prod.splits)
  then show ?thesis
  proof cases
    case same
    then show ?thesis using assms(2,3) by (simp add: budget_tracks_records_def)
  next
    case exec
    from execute_configs_raised[OF this assms(2)] show ?thesis
      using assms(3) by (auto simp: budget_tracks_records_def)
  next
    case analysis
    then show ?thesis using analysis_step_ok[of "fmt E" wm'] by auto
  qed
qed

lemma discovery_loop_budget:
  assumes "discovery_loop E ds B s = Some out"
  shows "budget_tracks_records s \<longrightarrow> loop_budget_ok B s out"
proof (rule discovery_loop.raw_induct[OF _ assms,
          where P = "\<lambda>E ds B s out. budget_tracks_records s \<longrightarrow> loop_budget_ok B s out"])
  fix loop E ds B s out
  assume IH: "\<And>E ds B s out. loop E ds B s = Some out \<Longrightarrow>
                budget_tracks_records s \<longrightarrow> loop_budget_ok B s out"
    and body: "(if budget_used s < B
                then case discovery_round E ds B s of
                       Inl raised \<Rightarrow> Some (Inl raised)
                     | Inr s' \<Rightarrow> loop E ds B s'
                else Some (Inr s)) = Some out"
  show "budget_tracks_records s \<longrightarrow> loop_budget_ok B s out"
  proof
    assume inv: "budget_tracks_records s"
    show "loop_budget_ok B s out"
    proof (cases "budget_used s < B")
      case False
      then show ?thesis using body inv by (auto simp: loop_budget_ok_def)
    next
      case True
      show ?thesis
      proof (cases "discovery_round E ds B s")
        case (Inl r)
        obtain err wm where r: "r = (err, wm)" by (cases r)
        have "out = Inl (err, wm)" using body True Inl r by simp
        then show ?thesis
          using discovery_round_raised[OF Inl[unfolded r] True inv] by (simp add: loop_budget_ok_def)
      next
        case (Inr s1)
        have step: "budget_tracks_records s1 \<and> budget_used s \<le> budget_used s1 \<and> budget_used s1 \<le> B"
          using discovery_round_returns[OF Inr True inv] .
        have "loop E ds B s1 = Some out" using body True Inr by simp
        from IH[OF this] step have "loop_budget_ok B s1 out" by blast
        then show ?thesis using step True
          by (auto simp: loop_budget_ok_def split: sum.splits)
      qed
    qed
  qed
qed

text \<open>
  Claim C2. Whatever the budget, a seed phase that completes leaves exactly one record
  per seed configuration. When the number of seeds is at most the budget, the world model
  that \<open>run\<close> ends with, normally or by an exception, holds at most \<open>budget_max\<close>
  records; a normal return holds exactly the larger of the two numbers. The inner loop
  over the proposed configurations, entered below the budget, appends
  \<open>min (number of proposals) (budget_max - budget_used)\<close> records and leaves the other
  proposals unexecuted.
\<close>

theorem run_budget:
  "(\<forall>wm. seed_loop E seeds empty_world_model = Inr wm \<longrightarrow>
      length (experiments wm) = length seeds) \<and>
   (\<forall>out. run E ds seeds B = Some out \<longrightarrow> int (length seeds) \<le> B \<longrightarrow>
      int (length (experiments (final_world_model out))) \<le> B) \<and>
   (\<forall>pareto wm. run E ds seeds B = Some (Inr (pareto, wm)) \<longrightarrow>
      int (length (experiments wm)) = max (int (length seeds)) B) \<and>
   (\<forall>cs wm used wm' used'.
      used < B \<longrightarrow> execute_configs E B cs wm used = Inr (wm', used') \<longrightarrow>
        used' - used = min (int (length cs)) (B - used) \<and>
        int (length (experiments wm')) = int (length (experiments wm)) + (used' - used))"
proof -
  let ?N = "int (length seeds)"
  have seed: "length (experiments wm) = length seeds"
    if "seed_loop E seeds empty_world_model = Inr wm" for wm
    using seed_loop_length[OF that] by (simp add: empty_world_model_def)
  have inner: "used' - used = min (int (length cs)) (B - used) \<and>
        int (length (experiments wm')) = int (length (experiments wm)) + (used' - used)"
    if "used < B" "execute_configs E B cs wm used = Inr (wm', used')" for cs wm used wm' used'
    using execute_configs_returns[OF that(2,1)] by simp
  have total: "(?N \<le> B \<longrightarrow> int (length (experiments (final_world_model out))) \<le> B) \<and>
               (\<forall>pareto wm. out = Inr (pareto, wm) \<longrightarrow> int (length (experiments wm)) = max ?N B)"
    if run: "run E ds seeds B = Some out" for out
  proof (cases "seed_loop E seeds empty_world_model")
    case (Inl r)
    obtain err wm where r: "r = (err, wm)" by (cases r)
    have out: "out = Inl (err, wm)" using run Inl r by (simp add: run_def)
    have "length (experiments wm) < length seeds"
      using seed_loop_raised[OF Inl[unfolded r]] by (simp add: empty_world_model_def)
    then show ?thesis using out by (simp add: final_world_model_def)
  next
    case (Inr wm0)
    let ?s0 = "\<lparr>self_world_model = wm0, planner_context = [], budget_used = ?N, iteration = 0\<rparr>"
    have inv: "budget_tracks_records ?s0"
      using seed[OF Inr] by (simp add: budget_tracks_records_def)
    obtain r where loop: "discovery_loop E ds B ?s0 = Some r"
      using run Inr by (cases "discovery_loop E ds B ?s0") (auto simp: run_def)
    have ok: "loop_budget_ok B ?s0 r"
      using discovery_loop_budget[OF loop] inv by blast
    show ?thesis
    proof (cases r)
      case (Inl raised)
      obtain err wm where "raised = (err, wm)" by (cases raised)
      then show ?thesis using run Inr loop Inl ok
        by (auto simp: run_def loop_budget_ok_def final_world_model_def)
    next
      case (Inr s')
      have "int (length (experiments (self_world_model s'))) = max ?N B"
        using ok Inr by (simp add: loop_budget_ok_def budget_tracks_records_def)
      moreover have "final_world_model out = self_world_model s'"
        using run \<open>seed_loop E seeds empty_world_model = Inr wm0\<close> loop Inr
        by (auto simp: run_def final_world_model_def split: sum.splits)
      moreover have "wm = self_world_model s'" if "out = Inr (pareto, wm)" for pareto wm
        using that calculation(2) by (simp add: final_world_model_def)
      ultimately show ?thesis by auto
    qed
  qed
  show ?thesis using seed inner total by blast
qed

text \<open>
  Claim C10. With no seed configuration and a positive budget, \<open>run\<close> raises
  \<open>KeyError\<close> for the key \<open>avg_psnr\<close> in its first iteration and leaves the world
  model empty.
\<close>

theorem run_without_seeds_raises:
  "0 < B \<Longrightarrow> run E ds [] B = Some (Inl (KeyError ''avg_psnr'', empty_world_model))"
proof -
  assume B: "0 < B"
  have summary: "print_summary (summarize_world_model empty_world_model) = Inl (KeyError ''avg_psnr'')"
    by (simp add: print_summary_def summarize_world_model_def empty_world_model_def
          get_all_experiments_def dict_item_def)
  let ?s0 = "\<lparr>self_world_model = empty_world_model, planner_context = [],
             budget_used = 0, iteration = 0\<rparr>"
  have round: "discovery_round E ds B ?s0 = Inl (KeyError ''avg_psnr'', empty_world_model)"
    by (simp add: discovery_round_def Let_def summary)
  have "discovery_loop E ds B ?s0 = Some (Inl (KeyError ''avg_psnr'', empty_world_model))"
    by (subst discovery_loop.simps) (simp add: B round)
  then show ?thesis by (simp add: run_def)
qed

text \<open>
The example collaborators, no seeds and a budget of one.
\<close>

theorem run_without_seeds_raises_witness:
  "(0::int) < 1 \<and>
   run example_env example_design_space [] 1 = Some (Inl (KeyError ''avg_psnr'', empty_world_model))"
proof -
  have h: "(0::int) < 1" by simp
  show ?thesis using h run_without_seeds_raises[OF h, of example_env example_design_space] by simp
qed

lemma print_summary_nonempty:
  "experiments wm \<noteq> [] \<Longrightarrow> print_summary (summarize_world_model wm) = Inr ()"
  by (cases "experiments wm")
     (simp_all add: print_summary_def summarize_world_model_def get_all_experiments_def
        dict_item_def Let_def)

lemma tested_keys_summary:
  "\<exists>ks. tested_keys (summarize_world_model wm) ''recon_families'' = Inr ks"
  "\<exists>ks. tested_keys (summarize_world_model wm) ''uq_schemes'' = Inr ks"
  by (cases "experiments wm";
      simp add: tested_keys_def summarize_world_model_def get_all_experiments_def
        dict_get_def Let_def)+

lemma identify_summary:
  "\<exists>gaps. identify_underexplored_regions (summarize_world_model wm) = Inr gaps"
proof -
  obtain k1 k2 where
    "tested_keys (summarize_world_model wm) ''recon_families'' = Inr k1"
    "tested_keys (summarize_world_model wm) ''uq_schemes'' = Inr k2"
    using tested_keys_summary by blast
  then show ?thesis by (simp add: identify_underexplored_regions_def Let_def)
qed

lemma frontiers_summary:
  "dict_get (summarize_world_model wm) ''frontiers'' (PList []) = PList []"
  by (cases "experiments wm")
     (simp_all add: summarize_world_model_def get_all_experiments_def dict_get_def Let_def)

text \<open>On a summary of a world model, the planner fails only when a projection fails.\<close>

lemma planner_step_summary:
  "\<exists>pr constraints.
     planner_step generate (summarize_world_model wm) ds n =
       (case project_loop (generate pr) ds constraints [] of
          Inl err \<Rightarrow> Inl err
        | Inr new_configs \<Rightarrow>
            Inr (if int (length new_configs) > n then py_slice_to n new_configs else new_configs))"
proof -
  obtain gaps where "identify_underexplored_regions (summarize_world_model wm) = Inr gaps"
    using identify_summary by blast
  then show ?thesis
    by (auto simp: planner_step_def Let_def frontiers_summary build_planner_prompt_def)
qed

lemma project_loop_length:
  "project_loop ps ds constraints acc = Inr cs \<Longrightarrow> length cs = length acc + length ps"
  by (induction ps arbitrary: acc) (auto simp: is_valid_config_def split: sum.splits)

lemma planner_step_nonempty:
  assumes "\<forall>pr. generate pr \<noteq> []" and "0 < n"
    and "planner_step generate (summarize_world_model wm) ds n = Inr cs"
  shows "cs \<noteq> []"
proof -
  obtain pr constraints where
    ps: "planner_step generate (summarize_world_model wm) ds n =
       (case project_loop (generate pr) ds constraints [] of
          Inl err \<Rightarrow> Inl err
        | Inr new_configs \<Rightarrow>
            Inr (if int (length new_configs) > n then py_slice_to n new_configs else new_configs))"
    using planner_step_summary by blast
  then obtain new_configs where
    pl: "project_loop (generate pr) ds constraints [] = Inr new_configs" and
    cs: "cs = (if int (length new_configs) > n then py_slice_to n new_configs else new_configs)"
    using assms(3) by (auto split: sum.splits)
  have "length new_configs = length (generate pr)" using project_loop_length[OF pl] by simp
  then have "new_configs \<noteq> []" using assms(1) by auto
  then show ?thesis using cs assms(2) by (auto simp: py_slice_to_def)
qed

lemma planner_step_silent:
  "planner_step (\<lambda>pr. []) (summarize_world_model wm) ds n = Inr []"
  using planner_step_summary[of "\<lambda>pr. []" wm ds n] by (auto simp: py_slice_to_def)




lemma example_seeded_records: "length (experiments example_seeded) = 1"
  by (simp add: example_seeded_def update_length empty_world_model_def)

lemma example_seeded_nonempty: "experiments example_seeded \<noteq> []"
  using example_seeded_records by auto

lemma example_seed_loop:
  "seed_loop example_env [example_config] empty_world_model = Inr example_seeded"
  by (simp add: example_env_def simulated_executor_def example_seeded_def empty_world_model_def
        case_prod_beta)


lemma silent_seed_loop:
  "seed_loop silent_env [example_config] empty_world_model = Inr example_seeded"
  by (simp add: example_env_def silent_env_def simulated_executor_def example_seeded_def
        empty_world_model_def case_prod_beta)

lemma example_project_loop:
  "project_loop (llm_generate_configs pr) example_design_space constraints [] = Inr example_proposals"
  by (simp add: llm_generate_configs_def project_to_design_space_def option_get_def
        example_design_space_def dict_get_def dict_item_def first_family_def is_valid_config_def
        example_proposals_def Let_def)

lemma example_planner_step:
  "planner_step llm_generate_configs (summarize_world_model wm) example_design_space n =
     Inr (if 3 > n then py_slice_to n example_proposals else example_proposals)"
proof -
  have "length example_proposals = 3" by (simp add: example_proposals_def)
  then show ?thesis
    using planner_step_summary[of llm_generate_configs wm example_design_space n]
    by (auto simp: example_project_loop)
qed



lemma discovery_round_silent:
  assumes "\<forall>k pr. llm E k pr = []" and "experiments (self_world_model s) \<noteq> []"
  shows "\<exists>s'. discovery_round E ds B s = Inr s' \<and> self_world_model s' = self_world_model s \<and>
              budget_used s' = budget_used s"
proof -
  have silent: "llm E (nat (iteration s + 1)) = (\<lambda>pr. [])" using assms(1) by (intro ext) simp
  obtain ids trends where "analysis_step (fmt E) (self_world_model s) = Inr (ids, trends)"
    using analysis_step_ok by blast
  then show ?thesis
    by (simp add: discovery_round_def Let_def print_summary_nonempty[OF assms(2)] silent
          planner_step_silent)
qed

lemma discovery_loop_stuck:
  assumes "discovery_loop E ds B s = Some out"
  shows "(\<forall>k pr. llm E k pr = []) \<longrightarrow>
           \<not> (experiments (self_world_model s) \<noteq> [] \<and> budget_used s < B)"
proof (rule discovery_loop.raw_induct[OF _ assms,
          where P = "\<lambda>E ds B s out. (\<forall>k pr. llm E k pr = []) \<longrightarrow>
                       \<not> (experiments (self_world_model s) \<noteq> [] \<and> budget_used s < B)"])
  fix loop E ds B s out
  assume IH: "\<And>E ds B s out. loop E ds B s = Some out \<Longrightarrow>
                (\<forall>k pr. llm E k pr = []) \<longrightarrow>
                  \<not> (experiments (self_world_model s) \<noteq> [] \<and> budget_used s < B)"
    and body: "(if budget_used s < B
                then case discovery_round E ds B s of
                       Inl raised \<Rightarrow> Some (Inl raised)
                     | Inr s' \<Rightarrow> loop E ds B s'
                else Some (Inr s)) = Some out"
  show "(\<forall>k pr. llm E k pr = []) \<longrightarrow> \<not> (experiments (self_world_model s) \<noteq> [] \<and> budget_used s < B)"
  proof (intro impI notI)
    assume silent: "\<forall>k pr. llm E k pr = []"
      and stuck: "experiments (self_world_model s) \<noteq> [] \<and> budget_used s < B"
    obtain s' where s': "discovery_round E ds B s = Inr s'"
      "self_world_model s' = self_world_model s" "budget_used s' = budget_used s"
      using discovery_round_silent[OF silent] stuck by blast
    have "loop E ds B s' = Some out" using body stuck s'(1) by simp
    from IH[OF this] silent stuck s'(2,3) show False by simp
  qed
qed

lemma discovery_loop_never_exits:
  assumes "\<forall>k pr. llm E k pr = []" and "experiments (self_world_model s) \<noteq> []"
    and "budget_used s < B"
  shows "discovery_loop E ds B s = None"
proof (cases "discovery_loop E ds B s")
  case None
  then show ?thesis .
next
  case (Some out)
  from discovery_loop_stuck[OF this] assms show ?thesis by blast
qed

text \<open>
  Claim C4 as stated has the loop exit after a bounded number of empty rounds. With a
  proposal generator that returns no proposal, one seed and a budget of two, \<open>run\<close>
  never returns.
\<close>

theorem empty_rounds_counterexample:
  "run silent_env example_design_space [example_config] 2 = None"
proof -
  let ?s = "\<lparr>self_world_model = example_seeded, planner_context = [], budget_used = 1, iteration = 0\<rparr>"
  have "\<forall>k pr. llm silent_env k pr = []" by (simp add: silent_env_def)
  moreover have "experiments (self_world_model ?s) \<noteq> []" by (simp add: example_seeded_nonempty)
  moreover have "budget_used ?s < 2" by simp
  ultimately have "discovery_loop silent_env example_design_space 2 ?s = None"
    by (rule discovery_loop_never_exits)
  then show ?thesis unfolding run_def silent_seed_loop by simp
qed

lemma discovery_round_progress:
  assumes "\<forall>k pr. llm E k pr \<noteq> []" and "budget_used s < B"
    and "discovery_round E ds B s = Inr s'"
  shows "budget_used s < budget_used s'"
proof -
  from assms(3) obtain cs wm' where
    pl: "planner_step (llm E (nat (iteration s + 1))) (summarize_world_model (self_world_model s)) ds
           (B - budget_used s) = Inr cs" and
    ex: "execute_configs E B cs (self_world_model s) (budget_used s) = Inr (wm', budget_used s')"
    by (auto simp: discovery_round_def Let_def split: sum.splits prod.splits)
  have "cs \<noteq> []"
    using planner_step_nonempty[OF _ _ pl] assms(1,2) by simp
  then have "0 < length cs" by simp
  moreover have "budget_used s' - budget_used s = min (int (length cs)) (B - budget_used s)"
    using execute_configs_returns[OF ex assms(2)] by simp
  ultimately show ?thesis using assms(2) by linarith
qed

lemma discovery_loop_terminates:
  assumes "\<forall>k pr. llm E k pr \<noteq> []"
  shows "\<exists>out. discovery_loop E ds B s = Some out"
proof (induction "nat (B - budget_used s)" arbitrary: s rule: less_induct)
  case less
  show ?case
  proof (cases "budget_used s < B")
    case False
    then show ?thesis by (subst discovery_loop.simps) simp
  next
    case True
    show ?thesis
    proof (cases "discovery_round E ds B s")
      case (Inl raised)
      then show ?thesis using True by (subst discovery_loop.simps) simp
    next
      case (Inr s')
      have "budget_used s < budget_used s'"
        using discovery_round_progress[OF assms True Inr] .
      then have "nat (B - budget_used s') < nat (B - budget_used s)" using True by linarith
      from less[OF this] obtain out where "discovery_loop E ds B s' = Some out" by blast
      then show ?thesis using True Inr by (subst discovery_loop.simps) simp
    qed
  qed
qed

text \<open>
  Claim C4, as the code has it. If the proposal generator returns at least one proposal
  whenever it is called, as \<open>llm_generate_configs\<close> does, then \<open>run\<close> terminates,
  normally or by an exception.
\<close>

theorem run_terminates:
  assumes "\<forall>k pr. llm E k pr \<noteq> []"
  shows "\<exists>out. run E ds seeds B = Some out"
proof (cases "seed_loop E seeds empty_world_model")
  case (Inl raised)
  then show ?thesis by (simp add: run_def)
next
  case (Inr wm)
  obtain out where "discovery_loop E ds B
      \<lparr>self_world_model = wm, planner_context = [], budget_used = int (length seeds), iteration = 0\<rparr>
      = Some out"
    using discovery_loop_terminates[OF assms] by blast
  then show ?thesis using Inr
    by (auto simp: run_def split: sum.splits)
qed

text \<open>
The repository's proposal generator.
\<close>

theorem run_terminates_witness:
  "(\<forall>k pr. llm example_env k pr \<noteq> []) \<and>
   (\<exists>out. run example_env example_design_space [example_config] 2 = Some out)"
proof -
  have h: "\<forall>k pr. llm example_env k pr \<noteq> []"
    by (simp add: example_env_def llm_generate_configs_def)
  show ?thesis using run_terminates[OF h, of example_design_space "[example_config]" 2] h by simp
qed

lemma example_execute_one:
  "execute_configs example_env 2 (hd example_proposals # rest) example_seeded 1 = Inr (example_round, 2)"
  by (simp add: example_env_def simulated_executor_def example_seeded_records example_round_def
        case_prod_beta Let_def)

lemma example_round_records: "length (experiments example_round) = 2"
  by (simp add: example_round_def update_length example_seeded_records)

text \<open>
  One seed and a budget of two: of the three proposals the inner loop runs one, and
  \<open>run\<close> returns a world model of two records.
\<close>

theorem run_budget_witness:
  "seed_loop example_env [example_config] empty_world_model = Inr example_seeded \<and>
   length (experiments example_seeded) = 1 \<and>
   execute_configs example_env 2 example_proposals example_seeded 1 = Inr (example_round, 2) \<and>
   length example_proposals = 3 \<and>
   length (experiments example_round) = 2 \<and>
   (\<exists>pareto. run example_env example_design_space [example_config] 2 = Some (Inr (pareto, example_round)))"
proof -
  let ?s = "\<lparr>self_world_model = example_seeded, planner_context = [], budget_used = 1, iteration = 0\<rparr>"
  have props: "example_proposals = hd example_proposals # tl example_proposals"
    "length example_proposals = 3"
    by (simp_all add: example_proposals_def)
  have inner: "execute_configs example_env 2 example_proposals example_seeded 1 = Inr (example_round, 2)"
    by (subst props(1)) (rule example_execute_one)
  have plan: "planner_step (llm example_env (nat (iteration ?s + 1)))
                (summarize_world_model (self_world_model ?s)) example_design_space (2 - budget_used ?s)
              = Inr [hd example_proposals]"
    by (simp add: example_env_def example_planner_step py_slice_to_def) (simp add: example_proposals_def)
  obtain pareto trends where
    an: "analysis_step (fmt example_env) example_round = Inr (pareto, trends)"
    using analysis_step_ok by blast
  let ?s1 = "\<lparr>self_world_model = example_round,
              planner_context = dict_set ''pareto_size'' (PInt (int (card pareto)))
                 (dict_set ''trends'' (PList (map PStr trends)) []),
              budget_used = 2, iteration = 1\<rparr>"
  have round: "discovery_round example_env example_design_space 2 ?s = Inr ?s1"
    by (simp add: discovery_round_def Let_def print_summary_nonempty example_seeded_nonempty
          plan[simplified] example_execute_one an del: execute_configs.simps)
  have "discovery_loop example_env example_design_space 2 ?s1 = Some (Inr ?s1)"
    by (subst discovery_loop.simps) simp
  then have "discovery_loop example_env example_design_space 2 ?s = Some (Inr ?s1)"
    by (subst discovery_loop.simps) (simp add: round)
  then have run: "run example_env example_design_space [example_config] 2 = Some (Inr (pareto, example_round))"
    unfolding run_def example_seed_loop by (simp add: an)
  show ?thesis
    using run_budget[of example_env "[example_config]" example_design_space 2]
      example_seed_loop example_seeded_records inner props(2) example_round_records run
    by auto
qed

subsection \<open>Structured export and import\<close>






end
